theory Spec2Isabelle
  imports Main "HOL-Library.Word"
begin

section \<open>Request-log tailing (package logs): data\<close>

text \<open>
  Go's \<open>int\<close> on the 64-bit targets of the CLI: a 64-bit two's complement value, compared
  through \<open>sint\<close>. An \<open>error\<close> value is the text its \<open>Error()\<close> method returns; a nil
  error or nil pointer is \<open>None\<close>.
\<close>

type_synonym go_int = "64 word"
type_synonym error = string

text \<open>An \<open>io.Writer\<close>: the ones this package names, and any other by a label.\<close>

datatype Writer = Discard | Stdout | OtherWriter string

text \<open>
  How a call ends: it returns a value, it ends the process with an exit status, it never
  returns, or it panics.
\<close>

datatype 'a Outcome = Returned 'a | Exited int | Blocked | Panicked string

text \<open>
  \<open>logrus.Logger\<close>, as far as the package depends on it: the writer \<open>Out\<close>, which \<open>Run\<close>
  reads, and the exit function \<open>ExitFunc\<close>, which \<open>Fatalf\<close> calls after logging. A nil
  \<open>ExitFunc\<close> stands for \<open>os.Exit\<close>; a function the caller has set may end the process
  with any status, or return.
\<close>

record Logger =
  Out :: Writer
  ExitFunc :: "(int \<Rightarrow> unit Outcome) option"

record Config =
  APIBaseURL :: string
  DeviceName :: string
  Key :: string
  Log :: "Logger option"
  NoWSS :: bool
  OutputFormat :: string
  WebSocketFeature :: string

definition outputFormatJSON :: string where
  "outputFormatJSON = ''json''"

record EventPayload =
  CreatedAt :: string
  Method :: string
  RequestID :: string
  Status :: go_int
  URL :: string

text \<open>The zero value of \<open>var payload EventPayload\<close>.\<close>

definition zeroPayload :: EventPayload where
  "zeroPayload = \<lparr>CreatedAt = [], Method = [], RequestID = [], Status = 0, URL = []\<rparr>"

text \<open>\<open>websocket.RequestLogEvent\<close> (pkg/websocket/request_log_messages.go).\<close>

record RequestLogEvent =
  EventPayload :: string
  RequestLogID :: string
  Type :: string

text \<open>
  \<open>websocket.IncomingMessage\<close>: the package reads one field of it, the pointer
  \<open>RequestLogEvent\<close>, nil when the message is of another kind.
\<close>

record IncomingMessage =
  RequestLogEvent :: "RequestLogEvent option"

text \<open>The session descriptor that \<open>Authorize\<close> returns: the four fields \<open>Run\<close> reads.\<close>

record StripeCLISession =
  WebSocketURL :: string
  WebSocketID :: string
  WebSocketAuthorizedFeature :: string
  ReconnectDelay :: go_int

text \<open>
  \<open>stripeauth.Client\<close> and \<open>websocket.Client\<close> are built by constructors of other
  packages; a client is represented by the arguments it was constructed from. The
  \<open>EventHandler\<close> of the websocket configuration is always the method value
  \<open>tailer.processRequestLogEvent\<close> and is not stored.
\<close>

record AuthClient =
  authKey :: string
  authLog :: "Logger option"
  authAPIBaseURL :: string

record WSConfig =
  wsLog :: Logger
  wsNoWSS :: bool
  ReconnectInterval :: "64 word"

record WSClient =
  wsURL :: string
  wsID :: string
  wsFeature :: string
  wsConfig :: WSConfig

datatype Signal = SIGINT | SIGTERM

text \<open>A buffered channel: its capacity and the values waiting in it.\<close>

record 'a chan =
  cap :: nat
  buf :: "'a list"

record Tailer =
  cfg :: Config
  stripeAuthClient :: AuthClient
  webSocketClient :: "WSClient option"
  interruptCh :: "Signal chan"

section \<open>Effects and outcomes\<close>

text \<open>
  What a call does to the outside is recorded as a list of effects, in program order:
  the calls into the spinner, the signal package, the authorization client, the
  websocket client, the loggers, the JSON decoder and standard output.
\<close>

datatype Level = Debug | Warn | Fatal

datatype LogSink = ConfigLog Logger | StandardLog

datatype Hue = Red | Yellow | Green

text \<open>
  An \<open>aurora.Value\<close>: which colour constructor was applied to which argument, and
  whether \<open>Bold()\<close> was applied. The bytes it prints as are the colour library's.
\<close>

record Value =
  hue :: Hue
  bold :: bool
  arg :: go_int

datatype Effect =
    StartSpinner string Writer
  | SignalNotify "Signal list"
  | CallAuthorize string string
  | LogCall LogSink Level "(string \<times> string) list" string
  | CallNewClient WSClient
  | GoClientRun
  | StopSpinner string Writer
  | Receive Signal
  | ClientStop
  | JSONUnmarshal string
  | Println string
  | Callback IncomingMessage

definition nilDeref :: string where
  "nilDeref = ''runtime error: invalid memory address or nil pointer dereference''"

text \<open>
  logrus: \<open>logger.Exit(code)\<close> calls the exit function of the logger, \<open>os.Exit\<close> when the
  field is nil; \<open>logger.Fatalf\<close> logs at fatal level and then calls \<open>logger.Exit(1)\<close>. When
  the exit function returns, so does \<open>Fatalf\<close>.
\<close>

definition Exit :: "Logger \<Rightarrow> int \<Rightarrow> unit Outcome" where
  "Exit logger code = (case ExitFunc logger of None \<Rightarrow> Exited code | Some f \<Rightarrow> f code)"

definition Fatalf :: "Logger \<Rightarrow> string \<Rightarrow> Effect list \<times> unit Outcome" where
  "Fatalf logger msg = ([LogCall (ConfigLog logger) Fatal [] msg], Exit logger 1)"

text \<open>
  The libraries the dispatcher calls, as parameters: \<open>json.Unmarshal\<close> into a payload
  variable (it returns the error and the variable as the decoder left it),
  \<open>ansi.ColorizeJSON\<close>, and the formatting of an \<open>aurora.Value\<close> under the verb \<open>%d\<close>.
\<close>

record Extern =
  jsonUnmarshal :: "string \<Rightarrow> EventPayload \<Rightarrow> error option \<times> EventPayload"
  ColorizeJSON :: "string \<Rightarrow> Writer \<Rightarrow> string"
  formatValue :: "Value \<Rightarrow> string"

text \<open>
  The surroundings of a run: what \<open>Authorize\<close> answers (\<open>None\<close> when the call never
  returns, otherwise the pair of session pointer and error), and the registered signals
  that the runtime relays to the interrupt channel, in order of arrival.
\<close>

record World =
  authorize :: "AuthClient \<Rightarrow> string \<Rightarrow> string \<Rightarrow> (StripeCLISession option \<times> error option) option"
  signals :: "Signal list"

section \<open>The constructor\<close>

definition New :: "Config \<Rightarrow> Tailer" where
  "New c =
     (let c' = (if Log c = None then c\<lparr>Log := Some \<lparr>Out = Discard, ExitFunc = None\<rparr>\<rparr> else c)
      in \<lparr>cfg = c',
          stripeAuthClient =
            \<lparr>authKey = Key c', authLog = Log c', authAPIBaseURL = APIBaseURL c'\<rparr>,
          webSocketClient = None,
          interruptCh = \<lparr>cap = 1, buf = []\<rparr>\<rparr>)"

section \<open>The dispatcher\<close>

definition colorRed :: "go_int \<Rightarrow> Value" where
  "colorRed x = \<lparr>hue = Red, bold = False, arg = x\<rparr>"

definition colorYellow :: "go_int \<Rightarrow> Value" where
  "colorYellow x = \<lparr>hue = Yellow, bold = False, arg = x\<rparr>"

definition colorGreen :: "go_int \<Rightarrow> Value" where
  "colorGreen x = \<lparr>hue = Green, bold = False, arg = x\<rparr>"

definition Bold :: "Value \<Rightarrow> Value" where
  "Bold v = v\<lparr>bold := True\<rparr>"

definition colorizeStatus :: "go_int \<Rightarrow> Value" where
  "colorizeStatus status =
     (if 500 \<le> sint status then Bold (colorRed status)
      else if 400 \<le> sint status then Bold (colorYellow status)
      else Bold (colorGreen status))"

text \<open>\<open>fmt.Sprintf("%s [%d] %s %s %s", ...)\<close> of the decoded payload.\<close>

definition outputStr :: "Extern \<Rightarrow> EventPayload \<Rightarrow> string" where
  "outputStr X payload =
     CreatedAt payload @ '' ['' @ formatValue X (colorizeStatus (Status payload)) @ ''] ''
       @ Method payload @ '' '' @ URL payload @ '' '' @ RequestID payload"

definition processRequestLogEvent ::
  "Extern \<Rightarrow> Tailer \<Rightarrow> IncomingMessage \<Rightarrow> Effect list \<times> unit Outcome" where
  "processRequestLogEvent X tailer msg =
     (case Log (cfg tailer) of
        None \<Rightarrow> ([], Panicked nilDeref)
      | Some lg \<Rightarrow>
         (case RequestLogEvent msg of
            None \<Rightarrow>
              ([LogCall (ConfigLog lg) Warn []
                  ''WebSocket specified for request logs received non-request-logs event''],
               Returned ())
          | Some requestLogEvent \<Rightarrow>
              (let dbg = LogCall (ConfigLog lg) Debug
                           [(''prefix'', ''logs.Tailer.processRequestLogEvent''),
                            (''webhook_id'', RequestLogID requestLogEvent)]
                           ''Processing request log event''
               in if OutputFormat (cfg tailer) = outputFormatJSON
                  then ([dbg, Println (ColorizeJSON X (EventPayload requestLogEvent) Stdout)],
                        Returned ())
                  else
                    (case jsonUnmarshal X (EventPayload requestLogEvent) zeroPayload of
                       (err, payload) \<Rightarrow>
                         ([dbg, JSONUnmarshal (EventPayload requestLogEvent)]
                          @ (case err of
                               None \<Rightarrow> []
                             | Some e \<Rightarrow>
                                 [LogCall (ConfigLog lg) Warn []
                                    (''Received malformed payload: '' @ e)])
                          @ [Println (outputStr X payload)],
                          Returned ())))))"

section \<open>The coordinator\<close>

text \<open>
  The \<open>os/signal\<close> package relays a signal with a send that does not block: a signal
  that finds the channel full is dropped. A receive takes the oldest value; on a channel
  that stays empty it never returns.
\<close>

definition notifySend :: "'a chan \<Rightarrow> 'a \<Rightarrow> 'a chan" where
  "notifySend ch s = (if length (buf ch) < cap ch then ch\<lparr>buf := buf ch @ [s]\<rparr> else ch)"

definition recv :: "'a chan \<Rightarrow> ('a \<times> 'a chan) option" where
  "recv ch = (case buf ch of [] \<Rightarrow> None | x # xs \<Rightarrow> Some (x, ch\<lparr>buf := xs\<rparr>))"

definition readyMessage :: string where
  "readyMessage = ''Ready! You're now waiting to receive API request logs (^C to quit)''"

text \<open>
  The \<open>for { select { case <-tailer.interruptCh: ... return nil } }\<close> of \<open>Run\<close>. The
  select has one case and no default, so it blocks in the receive; the case returns, so
  the loop body runs at most once.
\<close>

definition selectLoop :: "Tailer \<Rightarrow> Effect list \<times> error option Outcome \<times> Tailer" where
  "selectLoop tailer =
     (case recv (interruptCh tailer) of
        None \<Rightarrow> ([], Blocked, tailer)
      | Some (sg, ch) \<Rightarrow>
          ([Receive sg,
            LogCall StandardLog Debug [(''prefix'', ''logs.Tailer.Run'')]
              ''Ctrl+C received, cleaning up...'']
           @ (if webSocketClient tailer \<noteq> None then [ClientStop] else [])
           @ [LogCall StandardLog Debug [(''prefix'', ''logs.Tailer.Run'')] ''Bye!''],
           Returned None,
           tailer\<lparr>interruptCh := ch\<rparr>))"

text \<open>
  \<open>Run\<close>. There is no \<open>return\<close> after the call of \<open>Fatalf\<close>: when \<open>Fatalf\<close> returns,
  \<open>Run\<close> goes on with the session pointer that \<open>Authorize\<close> returned beside the error.
  Reading a field of a nil session panics.
  \<open>time.Duration(session.ReconnectDelay) * time.Second\<close> is a 64-bit multiplication by
  \<open>10^9\<close>. The signals of the world reach the channel from the moment \<open>signal.Notify\<close> has
  registered it.
\<close>

definition Run :: "World \<Rightarrow> Tailer \<Rightarrow> Effect list \<times> error option Outcome \<times> Tailer" where
  "Run w tailer =
     (case Log (cfg tailer) of
        None \<Rightarrow> ([], Panicked nilDeref, tailer)
      | Some lg \<Rightarrow>
         (let es = [StartSpinner ''Getting ready...'' (Out lg),
                    SignalNotify [SIGINT, SIGTERM],
                    CallAuthorize (DeviceName (cfg tailer)) (WebSocketFeature (cfg tailer))];
              tailer0 = tailer\<lparr>interruptCh := foldl notifySend (interruptCh tailer) (signals w)\<rparr>
          in case authorize w (stripeAuthClient tailer)
                    (DeviceName (cfg tailer)) (WebSocketFeature (cfg tailer)) of
               None \<Rightarrow> (es, Blocked, tailer0)
             | Some (session, err) \<Rightarrow>
                (case (case err of
                         None \<Rightarrow> ([], Returned ())
                       | Some e \<Rightarrow>
                           Fatalf lg (''Error while authenticating with Stripe: '' @ e)) of
                   (fes, Exited code) \<Rightarrow> (es @ fes, Exited code, tailer0)
                 | (fes, Blocked) \<Rightarrow> (es @ fes, Blocked, tailer0)
                 | (fes, Panicked p) \<Rightarrow> (es @ fes, Panicked p, tailer0)
                 | (fes, Returned u) \<Rightarrow>
                    (case session of
                       None \<Rightarrow> (es @ fes, Panicked nilDeref, tailer0)
                     | Some s \<Rightarrow>
                        (let client =
                               \<lparr>wsURL = WebSocketURL s,
                                wsID = WebSocketID s,
                                wsFeature = WebSocketAuthorizedFeature s,
                                wsConfig =
                                  \<lparr>wsLog = lg,
                                   wsNoWSS = NoWSS (cfg tailer),
                                   ReconnectInterval = ReconnectDelay s * 1000000000\<rparr>\<rparr>;
                             tailer1 = tailer0\<lparr>webSocketClient := Some client\<rparr>
                         in case selectLoop tailer1 of
                              (es', out, tailer2) \<Rightarrow>
                                (es @ fes @ [CallNewClient client, GoClientRun,
                                             StopSpinner readyMessage (Out lg)] @ es',
                                 out, tailer2))))))"

section \<open>The transport's delivery loop and a whole session\<close>

text \<open>
  Modelled from the spec: the websocket client (\<open>websocket.Client\<close>, its \<open>Run\<close> and
  \<open>Stop\<close>) is not among the sources. Spec 4.2: each successfully parsed inbound frame
  triggers exactly one callback invocation, in arrival order; the callback runs
  synchronously in the transport's own execution context. A panic of the callback ends
  the loop.
\<close>

fun deliver :: "Extern \<Rightarrow> Tailer \<Rightarrow> IncomingMessage list \<Rightarrow> Effect list \<times> unit Outcome" where
  "deliver X tailer [] = ([], Returned ())"
| "deliver X tailer (m # ms) =
     (case processRequestLogEvent X tailer m of
        (es, Returned u) \<Rightarrow>
          (case deliver X tailer ms of (es', out) \<Rightarrow> (Callback m # es @ es', out))
      | (es, out) \<Rightarrow> (Callback m # es, out))"

text \<open>
  Two execution paths, interleaved by a schedule: \<open>True\<close> lets the first path take its
  next step, \<open>False\<close> the second one (if it has a step left). When the schedule is used up
  the first path runs on. The result is the interleaving up to the end of the first path,
  and what the second path had not done by then.
\<close>

fun interleave :: "bool list \<Rightarrow> 'a list \<Rightarrow> 'a list \<Rightarrow> 'a list \<times> 'a list" where
  "interleave sched [] bg = ([], bg)"
| "interleave [] (f # fg) bg = (case interleave [] fg bg of (tr, r) \<Rightarrow> (f # tr, r))"
| "interleave (True # sched) (f # fg) bg =
     (case interleave sched fg bg of (tr, r) \<Rightarrow> (f # tr, r))"
| "interleave (False # sched) (f # fg) [] = interleave sched (f # fg) []"
| "interleave (False # sched) (f # fg) (b # bg) =
     (case interleave sched (f # fg) bg of (tr, r) \<Rightarrow> (b # tr, r))"

text \<open>
  Modelled from the spec: a whole session, \<open>New(cfg).Run()\<close> together with the transport
  that \<open>go tailer.webSocketClient.Run()\<close> starts. The transport delivers the inbound
  messages \<open>msgs\<close> through the callback; its steps can fall anywhere after the \<open>go\<close>
  statement (spec 4.2, \<open>start()\<close> is non-blocking) and before \<open>Stop()\<close>, after which no
  callback is invoked. When \<open>Run\<close> stays blocked, the transport delivers everything.
\<close>

definition session ::
  "Extern \<Rightarrow> World \<Rightarrow> Config \<Rightarrow> IncomingMessage list \<Rightarrow> bool list \<Rightarrow> Effect list" where
  "session X w c msgs sched =
     (case Run w (New c) of
        (fg, out, tailer') \<Rightarrow>
          (if GoClientRun \<in> set fg
           then (let pre = takeWhile (\<lambda>e. e \<noteq> GoClientRun) fg;
                     rest = tl (dropWhile (\<lambda>e. e \<noteq> GoClientRun) fg);
                     mid = takeWhile (\<lambda>e. e \<noteq> ClientStop) rest;
                     post = dropWhile (\<lambda>e. e \<noteq> ClientStop) rest
                 in case interleave sched mid (fst (deliver X tailer' msgs)) of
                      (tr, r) \<Rightarrow>
                        pre @ [GoClientRun] @ tr @ (if post = [] then r else post))
           else fg))"

text \<open>
  The reading of "the ready message is written only once the first inbound event has been
  delivered", on the trace of a session: every ready message in it comes after a callback.
\<close>

definition isReady :: "Effect \<Rightarrow> bool" where
  "isReady e = (case e of StopSpinner m out \<Rightarrow> m = readyMessage | _ \<Rightarrow> False)"

definition isCallback :: "Effect \<Rightarrow> bool" where
  "isCallback e = (case e of Callback m \<Rightarrow> True | _ \<Rightarrow> False)"

fun readyAfterFirstEvent :: "Effect list \<Rightarrow> bool" where
  "readyAfterFirstEvent [] = True"
| "readyAfterFirstEvent (e # es) =
     (if isCallback e then True
      else if isReady e then False
      else readyAfterFirstEvent es)"

section \<open>Reading a trace\<close>

definition isPrintln :: "Effect \<Rightarrow> bool" where
  "isPrintln e = (case e of Println s \<Rightarrow> True | _ \<Rightarrow> False)"

definition isDecode :: "Effect \<Rightarrow> bool" where
  "isDecode e = (case e of JSONUnmarshal s \<Rightarrow> True | _ \<Rightarrow> False)"

text \<open>
  The colour rule in the words of the specification: at least 500 is red, 400 to 499 is
  yellow, everything else is green.
\<close>

definition specHue :: "int \<Rightarrow> Hue" where
  "specHue n = (if 500 \<le> n then Red else if 400 \<le> n \<and> n \<le> 499 then Yellow else Green)"

section \<open>Sample inputs\<close>

text \<open>
  Concrete inputs at which the theorems below are instantiated: a configuration without a
  logger, a session descriptor, a world whose authorization succeeds and one where it is
  refused, and a stand-in for the libraries whose decoder accepts one payload and reports
  a syntax error, leaving the variable untouched, on any other. For the authorization
  error with a logger that does not end the process: a configuration whose logger has an
  exit function that returns, and a world where \<open>Authorize\<close> returns an error beside a
  session.
\<close>

definition exConfig :: Config where
  "exConfig = \<lparr>APIBaseURL = ''https://api.stripe.com'', DeviceName = ''laptop'',
                Key = ''sk_test_123'', Log = None, NoWSS = False,
                OutputFormat = ''human'', WebSocketFeature = ''request_logs''\<rparr>"

definition exSession :: StripeCLISession where
  "exSession = \<lparr>WebSocketURL = ''wss://ws.stripe.com/subscribe'', WebSocketID = ''cliws_1'',
                 WebSocketAuthorizedFeature = ''request_logs'', ReconnectDelay = 5\<rparr>"

definition exWorld :: World where
  "exWorld = \<lparr>authorize = (\<lambda>cl dev feat. Some (Some exSession, None)), signals = [SIGINT]\<rparr>"

definition exWorldDenied :: World where
  "exWorldDenied = \<lparr>authorize = (\<lambda>cl dev feat. Some (None, Some ''unauthorized'')),
                     signals = [SIGINT]\<rparr>"



definition exGoodJSON :: string where
  \<open>exGoodJSON = ''{"created_at":"12:00:05","method":"POST","request_id":"req_1","status":503,"url":"/v1/charges"}''\<close>

definition exBadJSON :: string where
  \<open>exBadJSON = ''{"created_at":''\<close>

definition exPayload :: EventPayload where
  "exPayload = \<lparr>CreatedAt = ''12:00:05'', Method = ''POST'', RequestID = ''req_1'',
                 Status = 503, URL = ''/v1/charges''\<rparr>"

definition exExtern :: Extern where
  "exExtern =
     \<lparr>jsonUnmarshal = (\<lambda>s p. if s = exGoodJSON then (None, exPayload)
                              else (Some ''unexpected end of JSON input'', p)),
      ColorizeJSON = (\<lambda>s out. s),
      formatValue = (\<lambda>v. (case hue v of Red \<Rightarrow> ''red'' | Yellow \<Rightarrow> ''yellow'' | Green \<Rightarrow> ''green'')
                          @ (if bold v then ''+bold'' else ''''))\<rparr>"

definition exGoodMsg :: IncomingMessage where
  "exGoodMsg = \<lparr>RequestLogEvent =
                   Some \<lparr>EventPayload = exGoodJSON, RequestLogID = ''resp_1'', Type = ''request_log_event''\<rparr>\<rparr>"

definition exBadMsg :: IncomingMessage where
  "exBadMsg = \<lparr>RequestLogEvent =
                  Some \<lparr>EventPayload = exBadJSON, RequestLogID = ''resp_2'', Type = ''request_log_event''\<rparr>\<rparr>"

definition exOtherMsg :: IncomingMessage where
  "exOtherMsg = \<lparr>RequestLogEvent = None\<rparr>"

section \<open>Auxiliary facts\<close>

subsection \<open>The tailer that \<open>New\<close> builds\<close>

lemma New_Log:
  "Log (cfg (New c)) = Some (case Log c of None \<Rightarrow> \<lparr>Out = Discard, ExitFunc = None\<rparr> | Some l \<Rightarrow> l)"
  by (cases "Log c") (simp_all add: New_def Let_def)

lemma New_cfg_fields:
  "DeviceName (cfg (New c)) = DeviceName c"
  "WebSocketFeature (cfg (New c)) = WebSocketFeature c"
  "NoWSS (cfg (New c)) = NoWSS c"
  "OutputFormat (cfg (New c)) = OutputFormat c"
  by (simp_all add: New_def Let_def)

lemma New_state:
  "webSocketClient (New c) = None"
  "interruptCh (New c) = \<lparr>cap = 1, buf = []\<rparr>"
  by (simp_all add: New_def Let_def)

lemma New_channel_reset:
  "(New c)\<lparr>interruptCh := \<lparr>cap = Suc 0, buf = []\<rparr>\<rparr> = New c"
  by (simp add: New_def Let_def)

subsection \<open>The interrupt channel keeps the first signal\<close>

lemma relay_full:
  "foldl notifySend \<lparr>cap = Suc 0, buf = [x]\<rparr> xs = \<lparr>cap = Suc 0, buf = [x]\<rparr>"
  by (induction xs) (simp_all add: notifySend_def)

lemma relay_first:
  "foldl notifySend (notifySend \<lparr>cap = Suc 0, buf = []\<rparr> x) xs = \<lparr>cap = Suc 0, buf = [x]\<rparr>"
  by (simp add: notifySend_def relay_full)

subsection \<open>The three paths of the dispatcher\<close>

lemma process_nil:
  assumes "Log (cfg t) = Some lg" and "RequestLogEvent msg = None"
  shows "processRequestLogEvent X t msg =
           ([LogCall (ConfigLog lg) Warn []
               ''WebSocket specified for request logs received non-request-logs event''],
            Returned ())"
  using assms by (simp add: processRequestLogEvent_def)

lemma process_json:
  assumes "Log (cfg t) = Some lg" and "RequestLogEvent msg = Some ev"
    and "OutputFormat (cfg t) = ''json''"
  shows "processRequestLogEvent X t msg =
           ([LogCall (ConfigLog lg) Debug
               [(''prefix'', ''logs.Tailer.processRequestLogEvent''),
                (''webhook_id'', RequestLogID ev)]
               ''Processing request log event'',
             Println (ColorizeJSON X (EventPayload ev) Stdout)],
            Returned ())"
  using assms by (simp add: processRequestLogEvent_def outputFormatJSON_def Let_def)

lemma process_human:
  assumes "Log (cfg t) = Some lg" and "RequestLogEvent msg = Some ev"
    and "OutputFormat (cfg t) \<noteq> ''json''"
    and "jsonUnmarshal X (EventPayload ev) zeroPayload = (err, payload)"
  shows "processRequestLogEvent X t msg =
           ([LogCall (ConfigLog lg) Debug
               [(''prefix'', ''logs.Tailer.processRequestLogEvent''),
                (''webhook_id'', RequestLogID ev)]
               ''Processing request log event'',
             JSONUnmarshal (EventPayload ev)]
            @ (case err of
                 None \<Rightarrow> []
               | Some e \<Rightarrow> [LogCall (ConfigLog lg) Warn [] (''Received malformed payload: '' @ e)])
            @ [Println (outputStr X payload)],
            Returned ())"
  using assms by (simp add: processRequestLogEvent_def outputFormatJSON_def Let_def)

lemma process_returns:
  assumes "Log (cfg t) = Some lg"
  shows "snd (processRequestLogEvent X t m) = Returned ()"
  using assms
  by (simp add: processRequestLogEvent_def Let_def split: option.splits prod.splits)

lemma process_ignores_decoder_json:
  assumes "OutputFormat (cfg t) = ''json''"
  shows "processRequestLogEvent (X\<lparr>jsonUnmarshal := f\<rparr>) t msg = processRequestLogEvent X t msg"
  using assms
  by (simp add: processRequestLogEvent_def outputFormatJSON_def Let_def split: option.splits)

lemma handler_never_ready:
  "filter isReady (fst (processRequestLogEvent X t m)) = []"
  by (simp add: processRequestLogEvent_def isReady_def Let_def split: option.splits prod.splits)

lemma deliver_step:
  assumes "Log (cfg t) = Some lg"
  shows "deliver X t (m # ms) =
           (Callback m # fst (processRequestLogEvent X t m) @ fst (deliver X t ms),
            snd (deliver X t ms))"
proof -
  obtain es where "processRequestLogEvent X t m = (es, Returned ())"
    using process_returns [OF assms, of X m] by (cases "processRequestLogEvent X t m") simp
  then show ?thesis
    by (simp split: prod.splits)
qed

lemma colorizeStatus_spec:
  "colorizeStatus st = \<lparr>hue = specHue (sint st), bold = True, arg = st\<rparr>"
  by (simp add: colorizeStatus_def specHue_def Bold_def colorRed_def colorYellow_def colorGreen_def)

subsection \<open>The paths of \<open>Run\<close>\<close>

lemma Run_success:
  assumes "authorize w (stripeAuthClient (New c)) (DeviceName c) (WebSocketFeature c)
             = Some (Some s, None)"
    and "signals w = sg # sgs"
    and "Log (cfg (New c)) = Some lg"
    and "client = \<lparr>wsURL = WebSocketURL s, wsID = WebSocketID s,
                    wsFeature = WebSocketAuthorizedFeature s,
                    wsConfig = \<lparr>wsLog = lg, wsNoWSS = NoWSS c,
                                ReconnectInterval = ReconnectDelay s * 1000000000\<rparr>\<rparr>"
  shows "Run w (New c) =
           ([StartSpinner ''Getting ready...'' (Out lg),
             SignalNotify [SIGINT, SIGTERM],
             CallAuthorize (DeviceName c) (WebSocketFeature c),
             CallNewClient client,
             GoClientRun,
             StopSpinner readyMessage (Out lg),
             Receive sg,
             LogCall StandardLog Debug [(''prefix'', ''logs.Tailer.Run'')]
               ''Ctrl+C received, cleaning up...'',
             ClientStop,
             LogCall StandardLog Debug [(''prefix'', ''logs.Tailer.Run'')] ''Bye!''],
            Returned None,
            (New c)\<lparr>webSocketClient := Some client\<rparr>)"
  using assms
  by (simp add: Run_def Let_def New_cfg_fields New_state relay_first selectLoop_def recv_def
      New_channel_reset)

lemma Run_blocked:
  assumes "authorize w (stripeAuthClient (New c)) (DeviceName c) (WebSocketFeature c)
             = Some (Some s, None)"
    and "signals w = []"
    and "Log (cfg (New c)) = Some lg"
    and "client = \<lparr>wsURL = WebSocketURL s, wsID = WebSocketID s,
                    wsFeature = WebSocketAuthorizedFeature s,
                    wsConfig = \<lparr>wsLog = lg, wsNoWSS = NoWSS c,
                                ReconnectInterval = ReconnectDelay s * 1000000000\<rparr>\<rparr>"
  shows "Run w (New c) =
           ([StartSpinner ''Getting ready...'' (Out lg),
             SignalNotify [SIGINT, SIGTERM],
             CallAuthorize (DeviceName c) (WebSocketFeature c),
             CallNewClient client,
             GoClientRun,
             StopSpinner readyMessage (Out lg)],
            Blocked,
            (New c)\<lparr>webSocketClient := Some client\<rparr>)"
  using assms
  by (simp add: Run_def Let_def New_cfg_fields New_state selectLoop_def recv_def
      New_channel_reset)





lemma Run_startup:
  assumes "authorize w (stripeAuthClient (New c)) (DeviceName c) (WebSocketFeature c)
             = Some (Some s, None)"
    and "Log (cfg (New c)) = Some lg"
    and "client = \<lparr>wsURL = WebSocketURL s, wsID = WebSocketID s,
                    wsFeature = WebSocketAuthorizedFeature s,
                    wsConfig = \<lparr>wsLog = lg, wsNoWSS = NoWSS c,
                                ReconnectInterval = ReconnectDelay s * 1000000000\<rparr>\<rparr>"
  shows "\<exists>es. fst (Run w (New c)) =
           [StartSpinner ''Getting ready...'' (Out lg),
            SignalNotify [SIGINT, SIGTERM],
            CallAuthorize (DeviceName c) (WebSocketFeature c),
            CallNewClient client,
            GoClientRun,
            StopSpinner readyMessage (Out lg)] @ es"
proof (cases "signals w")
  case Nil
  show ?thesis
    by (simp add: Run_blocked [OF assms(1) Nil assms(2,3)])
next
  case (Cons sg sgs)
  show ?thesis
    by (simp add: Run_success [OF assms(1) Cons assms(2,3)])
qed

subsection \<open>Interleaving and sessions\<close>

lemma interleave_keeps_first:
  "set fg \<subseteq> set (fst (interleave sched fg bg))"
  by (induction sched fg bg rule: interleave.induct) (auto split: prod.splits)

lemma session_has_ready:
  assumes "authorize w (stripeAuthClient (New c)) (DeviceName c) (WebSocketFeature c)
             = Some (Some s, None)"
    and "Log (cfg (New c)) = Some lg"
  shows "StopSpinner readyMessage (Out lg) \<in> set (session X w c msgs sched)"
proof -
  obtain es where fg: "fst (Run w (New c)) =
           [StartSpinner ''Getting ready...'' (Out lg),
            SignalNotify [SIGINT, SIGTERM],
            CallAuthorize (DeviceName c) (WebSocketFeature c),
            CallNewClient
              \<lparr>wsURL = WebSocketURL s, wsID = WebSocketID s,
               wsFeature = WebSocketAuthorizedFeature s,
               wsConfig = \<lparr>wsLog = lg, wsNoWSS = NoWSS c,
                           ReconnectInterval = ReconnectDelay s * 1000000000\<rparr>\<rparr>,
            GoClientRun,
            StopSpinner readyMessage (Out lg)] @ es"
    using Run_startup [OF assms refl] by blast
  obtain out t' where r: "Run w (New c) = (fst (Run w (New c)), out, t')"
    by (cases "Run w (New c)") simp
  obtain tr r' where il:
    "interleave sched
       (StopSpinner readyMessage (Out lg) # takeWhile (\<lambda>e. e \<noteq> ClientStop) es)
       (fst (deliver X t' msgs)) = (tr, r')"
    by (cases "interleave sched
       (StopSpinner readyMessage (Out lg) # takeWhile (\<lambda>e. e \<noteq> ClientStop) es)
       (fst (deliver X t' msgs))")
  have "StopSpinner readyMessage (Out lg) \<in> set tr"
    using interleave_keeps_first
      [of "StopSpinner readyMessage (Out lg) # takeWhile (\<lambda>e. e \<noteq> ClientStop) es"
          sched "fst (deliver X t' msgs)"]
    by (simp add: il)
  then show ?thesis
    unfolding session_def
    by (subst r) (simp add: fg Let_def il)
qed

subsection \<open>The sample inputs\<close>

lemma ex_Log:
  "Log (cfg (New (exConfig\<lparr>OutputFormat := f\<rparr>))) = Some \<lparr>Out = Discard, ExitFunc = None\<rparr>"
  "Log (cfg (New exConfig)) = Some \<lparr>Out = Discard, ExitFunc = None\<rparr>"
  by (simp_all add: New_Log exConfig_def)




lemma ex_human: "OutputFormat (cfg (New exConfig)) \<noteq> ''json''"
  by (simp add: New_cfg_fields exConfig_def)

lemma ex_good_event:
  "RequestLogEvent exGoodMsg =
     Some \<lparr>EventPayload = exGoodJSON, RequestLogID = ''resp_1'', Type = ''request_log_event''\<rparr>"
  by (simp add: exGoodMsg_def)

lemma ex_bad_event:
  "RequestLogEvent exBadMsg =
     Some \<lparr>EventPayload = exBadJSON, RequestLogID = ''resp_2'', Type = ''request_log_event''\<rparr>"
  by (simp add: exBadMsg_def)

lemma ex_decode_good:
  "jsonUnmarshal exExtern
     (EventPayload \<lparr>EventPayload = exGoodJSON, RequestLogID = ''resp_1'',
                    Type = ''request_log_event''\<rparr>) zeroPayload = (None, exPayload)"
  by (simp add: exExtern_def)

lemma ex_decode_bad:
  "jsonUnmarshal exExtern
     (EventPayload \<lparr>EventPayload = exBadJSON, RequestLogID = ''resp_2'',
                    Type = ''request_log_event''\<rparr>) zeroPayload
     = (Some ''unexpected end of JSON input'', zeroPayload)"
  by (simp add: exExtern_def exBadJSON_def exGoodJSON_def)

lemma ex_colorize: "ColorizeJSON exExtern s out = s"
  by (simp add: exExtern_def)

lemma ex_line_zero: "outputStr exExtern zeroPayload = '' [green+bold]   ''"
  by (simp add: outputStr_def zeroPayload_def colorizeStatus_spec specHue_def exExtern_def)

lemma ex_line_good:
  "outputStr exExtern exPayload = ''12:00:05 [red+bold] POST /v1/charges req_1''"
  by (simp add: outputStr_def exPayload_def colorizeStatus_spec specHue_def exExtern_def)

lemma ex_authorize:
  "authorize exWorld (stripeAuthClient (New exConfig)) (DeviceName exConfig)
     (WebSocketFeature exConfig) = Some (Some exSession, None)"
  "authorize (exWorld\<lparr>signals := []\<rparr>) (stripeAuthClient (New exConfig)) (DeviceName exConfig)
     (WebSocketFeature exConfig) = Some (Some exSession, None)"
  "authorize exWorldDenied (stripeAuthClient (New exConfig)) (DeviceName exConfig)
     (WebSocketFeature exConfig) = Some (None, Some ''unauthorized'')"
  by (simp_all add: exWorld_def exWorldDenied_def)

lemma ex_signals:
  "signals exWorld = SIGINT # []"
  "signals (exWorld\<lparr>signals := []\<rparr>) = []"
  by (simp_all add: exWorld_def)

section \<open>The coordinator: theorems\<close>









section \<open>The dispatcher: theorems\<close>

text \<open>
  C3. For a request-log event in human mode (the output format is not "json") the
  dispatcher prints exactly one line, made of the created-at field, the colourised status
  in square brackets, the method, the URL and the request id of the decoded payload,
  separated by single spaces. The colourised status is bold and its colour follows the
  rule of the specification, read on the signed value of the status: red from 500 up,
  yellow from 400 to 499, green for anything else, zero and negative values included.
\<close>

theorem human_mode_line:
  assumes "Log (cfg t) = Some lg"
    and "RequestLogEvent msg = Some ev"
    and "OutputFormat (cfg t) \<noteq> ''json''"
    and "snd (jsonUnmarshal X (EventPayload ev) zeroPayload) = payload"
  shows "filter isPrintln (fst (processRequestLogEvent X t msg)) =
           [Println (CreatedAt payload @ '' [''
                     @ formatValue X \<lparr>hue = specHue (sint (Status payload)), bold = True,
                                      arg = Status payload\<rparr>
                     @ ''] '' @ Method payload @ '' '' @ URL payload @ '' ''
                     @ RequestID payload)]
         \<and> colorizeStatus st = \<lparr>hue = specHue (sint st), bold = True, arg = st\<rparr>"
proof -
  obtain err where u: "jsonUnmarshal X (EventPayload ev) zeroPayload = (err, payload)"
    using assms(4) by (cases "jsonUnmarshal X (EventPayload ev) zeroPayload") simp
  show ?thesis
    by (simp add: process_human [OF assms(1-3) u] isPrintln_def outputStr_def
        colorizeStatus_spec split: option.splits)
qed

theorem human_mode_line_witness:
  "Log (cfg (New exConfig)) = Some \<lparr>Out = Discard, ExitFunc = None\<rparr>
   \<and> RequestLogEvent exGoodMsg =
       Some \<lparr>EventPayload = exGoodJSON, RequestLogID = ''resp_1'', Type = ''request_log_event''\<rparr>
   \<and> OutputFormat (cfg (New exConfig)) \<noteq> ''json''
   \<and> snd (jsonUnmarshal exExtern exGoodJSON zeroPayload) = exPayload
   \<and> filter isPrintln (fst (processRequestLogEvent exExtern (New exConfig) exGoodMsg)) =
        [Println ''12:00:05 [red+bold] POST /v1/charges req_1'']
   \<and> colorizeStatus 0 = \<lparr>hue = Green, bold = True, arg = 0\<rparr>
   \<and> colorizeStatus (- 1) = \<lparr>hue = Green, bold = True, arg = - 1\<rparr>
   \<and> colorizeStatus 399 = \<lparr>hue = Green, bold = True, arg = 399\<rparr>
   \<and> colorizeStatus 400 = \<lparr>hue = Yellow, bold = True, arg = 400\<rparr>
   \<and> colorizeStatus 499 = \<lparr>hue = Yellow, bold = True, arg = 499\<rparr>
   \<and> colorizeStatus 500 = \<lparr>hue = Red, bold = True, arg = 500\<rparr>"
proof -
  have d: "snd (jsonUnmarshal exExtern
                  (EventPayload \<lparr>EventPayload = exGoodJSON, RequestLogID = ''resp_1'',
                                 Type = ''request_log_event''\<rparr>) zeroPayload) = exPayload"
    by (simp add: exExtern_def)
  have e: "formatValue exExtern \<lparr>hue = Red, bold = True, arg = x\<rparr> = ''red+bold''" for x
    by (simp add: exExtern_def)
  have s: "specHue 503 = Red" "specHue 0 = Green" "specHue (- 1) = Green" "specHue 399 = Green"
    "specHue 400 = Yellow" "specHue 499 = Yellow" "specHue 500 = Red"
    by (simp_all add: specHue_def)
  note th = human_mode_line [OF ex_Log(2) ex_good_event ex_human d]
  show ?thesis
    using th [of 0] th [of "- 1"] th [of 399] th [of 400] th [of 499] th [of 500]
      ex_Log(2) ex_good_event ex_human d
    by (simp add: exPayload_def e s)
qed

text \<open>
  C4, as stated: the status colours are 200 green, 404 yellow, 500 red, 503 red, 301
  yellow and 999 red. The code does not do that: 301 is below 400 and falls into the
  final \<open>else\<close>, which is green.
\<close>

theorem status_colours_301_not_yellow:
  "\<not> (hue (colorizeStatus 200) = Green \<and> hue (colorizeStatus 404) = Yellow
      \<and> hue (colorizeStatus 500) = Red \<and> hue (colorizeStatus 503) = Red
      \<and> hue (colorizeStatus 301) = Yellow \<and> hue (colorizeStatus 999) = Red)"
  by (simp add: colorizeStatus_def Bold_def colorRed_def colorYellow_def colorGreen_def)

text \<open>
  C4, amended: the status colours are 200 green, 404 yellow, 500 red, 503 red, 301 green
  and 999 red.
\<close>

theorem status_colours_table:
  "hue (colorizeStatus 200) = Green \<and> hue (colorizeStatus 404) = Yellow
   \<and> hue (colorizeStatus 500) = Red \<and> hue (colorizeStatus 503) = Red
   \<and> hue (colorizeStatus 301) = Green \<and> hue (colorizeStatus 999) = Red"
  by (simp add: colorizeStatus_def Bold_def colorRed_def colorYellow_def colorGreen_def)

text \<open>
  C5. In human mode, when the decoder reports an error for the payload of an event, the
  dispatcher logs a warning with that error and still prints the line, built from the
  payload variable as the decoder left it (the zero payload where it stored nothing). It
  returns normally, so the delivery loop goes on: a well-formed event that follows is
  decoded and printed as usual, without a warning.
\<close>

theorem malformed_payload_still_printed:
  assumes "Log (cfg t) = Some lg"
    and "OutputFormat (cfg t) \<noteq> ''json''"
    and "RequestLogEvent bad = Some ev"
    and "jsonUnmarshal X (EventPayload ev) zeroPayload = (Some e, p)"
    and "RequestLogEvent good = Some ev'"
    and "jsonUnmarshal X (EventPayload ev') zeroPayload = (None, p')"
  shows "processRequestLogEvent X t bad =
           ([LogCall (ConfigLog lg) Debug
               [(''prefix'', ''logs.Tailer.processRequestLogEvent''),
                (''webhook_id'', RequestLogID ev)]
               ''Processing request log event'',
             JSONUnmarshal (EventPayload ev),
             LogCall (ConfigLog lg) Warn [] (''Received malformed payload: '' @ e),
             Println (outputStr X p)],
            Returned ())
         \<and> deliver X t [bad, good] =
           ([Callback bad,
             LogCall (ConfigLog lg) Debug
               [(''prefix'', ''logs.Tailer.processRequestLogEvent''),
                (''webhook_id'', RequestLogID ev)]
               ''Processing request log event'',
             JSONUnmarshal (EventPayload ev),
             LogCall (ConfigLog lg) Warn [] (''Received malformed payload: '' @ e),
             Println (outputStr X p),
             Callback good,
             LogCall (ConfigLog lg) Debug
               [(''prefix'', ''logs.Tailer.processRequestLogEvent''),
                (''webhook_id'', RequestLogID ev')]
               ''Processing request log event'',
             JSONUnmarshal (EventPayload ev'),
             Println (outputStr X p')],
            Returned ())"
proof -
  have b: "processRequestLogEvent X t bad =
           ([LogCall (ConfigLog lg) Debug
               [(''prefix'', ''logs.Tailer.processRequestLogEvent''),
                (''webhook_id'', RequestLogID ev)]
               ''Processing request log event'',
             JSONUnmarshal (EventPayload ev),
             LogCall (ConfigLog lg) Warn [] (''Received malformed payload: '' @ e),
             Println (outputStr X p)],
            Returned ())"
    using process_human [OF assms(1) assms(3) assms(2) assms(4)] by simp
  have g: "processRequestLogEvent X t good =
           ([LogCall (ConfigLog lg) Debug
               [(''prefix'', ''logs.Tailer.processRequestLogEvent''),
                (''webhook_id'', RequestLogID ev')]
               ''Processing request log event'',
             JSONUnmarshal (EventPayload ev'),
             Println (outputStr X p')],
            Returned ())"
    using process_human [OF assms(1) assms(5) assms(2) assms(6)] by simp
  have d: "deliver X t [bad, good] =
             (Callback bad # fst (processRequestLogEvent X t bad)
                @ Callback good # fst (processRequestLogEvent X t good), Returned ())"
    by (simp add: deliver_step [OF assms(1)] del: deliver.simps(2))
  show ?thesis
    using b g d by simp
qed

theorem malformed_payload_still_printed_witness:
  "Log (cfg (New exConfig)) = Some \<lparr>Out = Discard, ExitFunc = None\<rparr>
   \<and> OutputFormat (cfg (New exConfig)) \<noteq> ''json''
   \<and> RequestLogEvent exBadMsg =
       Some \<lparr>EventPayload = exBadJSON, RequestLogID = ''resp_2'', Type = ''request_log_event''\<rparr>
   \<and> jsonUnmarshal exExtern exBadJSON zeroPayload
       = (Some ''unexpected end of JSON input'', zeroPayload)
   \<and> RequestLogEvent exGoodMsg =
       Some \<lparr>EventPayload = exGoodJSON, RequestLogID = ''resp_1'', Type = ''request_log_event''\<rparr>
   \<and> jsonUnmarshal exExtern exGoodJSON zeroPayload = (None, exPayload)
   \<and> deliver exExtern (New exConfig) [exBadMsg, exGoodMsg] =
       ([Callback exBadMsg,
         LogCall (ConfigLog \<lparr>Out = Discard, ExitFunc = None\<rparr>) Debug
           [(''prefix'', ''logs.Tailer.processRequestLogEvent''), (''webhook_id'', ''resp_2'')]
           ''Processing request log event'',
         JSONUnmarshal exBadJSON,
         LogCall (ConfigLog \<lparr>Out = Discard, ExitFunc = None\<rparr>) Warn []
           ''Received malformed payload: unexpected end of JSON input'',
         Println '' [green+bold]   '',
         Callback exGoodMsg,
         LogCall (ConfigLog \<lparr>Out = Discard, ExitFunc = None\<rparr>) Debug
           [(''prefix'', ''logs.Tailer.processRequestLogEvent''), (''webhook_id'', ''resp_1'')]
           ''Processing request log event'',
         JSONUnmarshal exGoodJSON,
         Println ''12:00:05 [red+bold] POST /v1/charges req_1''],
        Returned ())"
  using malformed_payload_still_printed
          [OF ex_Log(2) ex_human ex_bad_event ex_decode_bad ex_good_event ex_decode_good]
    ex_Log(2) ex_human ex_bad_event ex_decode_bad ex_good_event ex_decode_good
  by (simp add: ex_line_zero ex_line_good del: deliver.simps)

text \<open>
  C6. For a message whose \<open>RequestLogEvent\<close> is nil the dispatcher logs one warning, prints
  nothing and returns normally; the delivery loop goes on with the messages that follow.
\<close>

theorem non_request_log_message_discarded:
  assumes "Log (cfg t) = Some lg"
    and "RequestLogEvent msg = None"
  shows "processRequestLogEvent X t msg =
           ([LogCall (ConfigLog lg) Warn []
               ''WebSocket specified for request logs received non-request-logs event''],
            Returned ())
         \<and> filter isPrintln (fst (processRequestLogEvent X t msg)) = []
         \<and> deliver X t (msg # ms) =
             (Callback msg
              # LogCall (ConfigLog lg) Warn []
                  ''WebSocket specified for request logs received non-request-logs event''
              # fst (deliver X t ms),
              snd (deliver X t ms))"
  by (simp add: deliver_step [OF assms(1)] process_nil [OF assms] isPrintln_def
      del: deliver.simps(2))

theorem non_request_log_message_discarded_witness:
  "Log (cfg (New exConfig)) = Some \<lparr>Out = Discard, ExitFunc = None\<rparr>
   \<and> RequestLogEvent exOtherMsg = None
   \<and> processRequestLogEvent exExtern (New exConfig) exOtherMsg =
       ([LogCall (ConfigLog \<lparr>Out = Discard, ExitFunc = None\<rparr>) Warn []
           ''WebSocket specified for request logs received non-request-logs event''],
        Returned ())
   \<and> filter isPrintln (fst (processRequestLogEvent exExtern (New exConfig) exOtherMsg)) = []
   \<and> deliver exExtern (New exConfig) [exOtherMsg] =
       ([Callback exOtherMsg,
         LogCall (ConfigLog \<lparr>Out = Discard, ExitFunc = None\<rparr>) Warn []
           ''WebSocket specified for request logs received non-request-logs event''],
        Returned ())"
proof -
  have b: "RequestLogEvent exOtherMsg = None"
    by (simp add: exOtherMsg_def)
  show ?thesis
    using non_request_log_message_discarded [OF ex_Log(2) b, of exExtern "[]"] ex_Log(2) b
    by (simp add: isPrintln_def del: deliver.simps(2))
qed

text \<open>
  C7. When the output format is "json", the dispatcher prints the colourised raw payload
  of the event and returns; it does not call the decoder, and what it does is the same
  whatever the decoder is. The decoder is called exactly when the output format is not
  "json".
\<close>

theorem json_mode_prints_raw_payload:
  assumes "Log (cfg t) = Some lg"
    and "RequestLogEvent msg = Some ev"
  shows "(OutputFormat (cfg t) = ''json'' \<longrightarrow>
            processRequestLogEvent X t msg =
              ([LogCall (ConfigLog lg) Debug
                  [(''prefix'', ''logs.Tailer.processRequestLogEvent''),
                   (''webhook_id'', RequestLogID ev)]
                  ''Processing request log event'',
                Println (ColorizeJSON X (EventPayload ev) Stdout)],
               Returned ())
            \<and> processRequestLogEvent (X\<lparr>jsonUnmarshal := f\<rparr>) t msg
                = processRequestLogEvent X t msg)
         \<and> filter isDecode (fst (processRequestLogEvent X t msg)) =
             (if OutputFormat (cfg t) = ''json'' then [] else [JSONUnmarshal (EventPayload ev)])"
proof (cases "OutputFormat (cfg t) = ''json''")
  case True
  then show ?thesis
    by (simp add: process_json [OF assms True] process_ignores_decoder_json isDecode_def)
next
  case False
  obtain err payload where u: "jsonUnmarshal X (EventPayload ev) zeroPayload = (err, payload)"
    by (cases "jsonUnmarshal X (EventPayload ev) zeroPayload")
  show ?thesis
    using False
    by (simp add: process_human [OF assms False u] isDecode_def split: option.splits)
qed

theorem json_mode_prints_raw_payload_witness:
  "Log (cfg (New (exConfig\<lparr>OutputFormat := ''json''\<rparr>))) = Some \<lparr>Out = Discard, ExitFunc = None\<rparr>
   \<and> RequestLogEvent exGoodMsg =
       Some \<lparr>EventPayload = exGoodJSON, RequestLogID = ''resp_1'', Type = ''request_log_event''\<rparr>
   \<and> OutputFormat (cfg (New (exConfig\<lparr>OutputFormat := ''json''\<rparr>))) = ''json''
   \<and> processRequestLogEvent exExtern (New (exConfig\<lparr>OutputFormat := ''json''\<rparr>)) exGoodMsg =
       ([LogCall (ConfigLog \<lparr>Out = Discard, ExitFunc = None\<rparr>) Debug
           [(''prefix'', ''logs.Tailer.processRequestLogEvent''), (''webhook_id'', ''resp_1'')]
           ''Processing request log event'',
         Println exGoodJSON],
        Returned ())
   \<and> filter isDecode
       (fst (processRequestLogEvent exExtern (New (exConfig\<lparr>OutputFormat := ''json''\<rparr>))
               exGoodMsg)) = []
   \<and> OutputFormat (cfg (New exConfig)) \<noteq> ''json''
   \<and> filter isDecode (fst (processRequestLogEvent exExtern (New exConfig) exGoodMsg))
       = [JSONUnmarshal exGoodJSON]"
proof -
  have c: "OutputFormat (cfg (New (exConfig\<lparr>OutputFormat := ''json''\<rparr>))) = ''json''"
    by (simp add: New_cfg_fields)
  show ?thesis
    using json_mode_prints_raw_payload [OF ex_Log(1) ex_good_event, of "''json''" exExtern]
      json_mode_prints_raw_payload [OF ex_Log(2) ex_good_event, of exExtern]
      ex_Log ex_good_event c ex_human
    by (simp add: ex_colorize isDecode_def)
qed

text \<open>
  C10. The dispatcher takes the JSON path exactly when the output format is the string
  "json". With any other value, the empty string, "JSON" or an unknown name included, it
  takes the human path: it decodes and prints the line, and it returns normally, without
  an error about the format.
\<close>

theorem output_format_exact_match:
  assumes "Log (cfg t) = Some lg"
    and "RequestLogEvent msg = Some ev"
    and "jsonUnmarshal X (EventPayload ev) zeroPayload = (err, payload)"
  shows "processRequestLogEvent X t msg =
           (if OutputFormat (cfg t) = ''json''
            then ([LogCall (ConfigLog lg) Debug
                     [(''prefix'', ''logs.Tailer.processRequestLogEvent''),
                      (''webhook_id'', RequestLogID ev)]
                     ''Processing request log event'',
                   Println (ColorizeJSON X (EventPayload ev) Stdout)],
                  Returned ())
            else ([LogCall (ConfigLog lg) Debug
                     [(''prefix'', ''logs.Tailer.processRequestLogEvent''),
                      (''webhook_id'', RequestLogID ev)]
                     ''Processing request log event'',
                   JSONUnmarshal (EventPayload ev)]
                  @ (case err of
                       None \<Rightarrow> []
                     | Some e \<Rightarrow>
                         [LogCall (ConfigLog lg) Warn [] (''Received malformed payload: '' @ e)])
                  @ [Println (outputStr X payload)],
                  Returned ()))"
proof (cases "OutputFormat (cfg t) = ''json''")
  case True
  then show ?thesis
    by (simp add: process_json [OF assms(1,2) True])
next
  case False
  then show ?thesis
    by (simp add: process_human [OF assms(1,2) False assms(3)])
qed

theorem output_format_exact_match_witness:
  "Log (cfg (New exConfig)) = Some \<lparr>Out = Discard, ExitFunc = None\<rparr>
   \<and> RequestLogEvent exGoodMsg =
       Some \<lparr>EventPayload = exGoodJSON, RequestLogID = ''resp_1'', Type = ''request_log_event''\<rparr>
   \<and> jsonUnmarshal exExtern exGoodJSON zeroPayload = (None, exPayload)
   \<and> fst (processRequestLogEvent exExtern (New (exConfig\<lparr>OutputFormat := ''json''\<rparr>)) exGoodMsg) =
       [LogCall (ConfigLog \<lparr>Out = Discard, ExitFunc = None\<rparr>) Debug
          [(''prefix'', ''logs.Tailer.processRequestLogEvent''), (''webhook_id'', ''resp_1'')]
          ''Processing request log event'',
        Println exGoodJSON]
   \<and> fst (processRequestLogEvent exExtern (New (exConfig\<lparr>OutputFormat := ''JSON''\<rparr>)) exGoodMsg) =
       [LogCall (ConfigLog \<lparr>Out = Discard, ExitFunc = None\<rparr>) Debug
          [(''prefix'', ''logs.Tailer.processRequestLogEvent''), (''webhook_id'', ''resp_1'')]
          ''Processing request log event'',
        JSONUnmarshal exGoodJSON,
        Println ''12:00:05 [red+bold] POST /v1/charges req_1'']
   \<and> fst (processRequestLogEvent exExtern (New (exConfig\<lparr>OutputFormat := ''''\<rparr>)) exGoodMsg) =
       [LogCall (ConfigLog \<lparr>Out = Discard, ExitFunc = None\<rparr>) Debug
          [(''prefix'', ''logs.Tailer.processRequestLogEvent''), (''webhook_id'', ''resp_1'')]
          ''Processing request log event'',
        JSONUnmarshal exGoodJSON,
        Println ''12:00:05 [red+bold] POST /v1/charges req_1'']
   \<and> fst (processRequestLogEvent exExtern (New (exConfig\<lparr>OutputFormat := ''yaml''\<rparr>)) exGoodMsg) =
       [LogCall (ConfigLog \<lparr>Out = Discard, ExitFunc = None\<rparr>) Debug
          [(''prefix'', ''logs.Tailer.processRequestLogEvent''), (''webhook_id'', ''resp_1'')]
          ''Processing request log event'',
        JSONUnmarshal exGoodJSON,
        Println ''12:00:05 [red+bold] POST /v1/charges req_1'']
   \<and> snd (processRequestLogEvent exExtern (New (exConfig\<lparr>OutputFormat := ''yaml''\<rparr>)) exGoodMsg)
       = Returned ()"
  using output_format_exact_match [OF ex_Log(1) ex_good_event ex_decode_good, of "''json''"]
    output_format_exact_match [OF ex_Log(1) ex_good_event ex_decode_good, of "''JSON''"]
    output_format_exact_match [OF ex_Log(1) ex_good_event ex_decode_good, of "''''"]
    output_format_exact_match [OF ex_Log(1) ex_good_event ex_decode_good, of "''yaml''"]
    ex_Log(2) ex_good_event ex_decode_good
  by (simp add: New_cfg_fields ex_colorize ex_line_good)

section \<open>The ready message\<close>

text \<open>
  C8, as stated: the ready message replaces the spinner when the first event arrives, so
  it is not written before the first inbound event has been delivered. The code does not
  do that. In the session below the transport delivers one event, and its first step
  falls after the step of \<open>Run\<close> that follows the \<open>go\<close> statement: the ready message is in
  the trace before the callback.
\<close>

theorem ready_message_precedes_any_event:
  "\<not> readyAfterFirstEvent
        (session exExtern exWorld exConfig [exGoodMsg] [True, False, False, False, False])"
proof -
  note run = Run_success [OF ex_authorize(1) ex_signals(1) ex_Log(2) refl]
  show ?thesis
    unfolding session_def
    by (simp add: run Let_def isReady_def isCallback_def split: prod.splits)
qed

text \<open>
  C8, amended: \<open>Run\<close> itself replaces the spinner by the ready message, as the step right
  after the \<open>go\<close> statement that starts the transport and before it waits for the
  interrupt. Every session whose authorization succeeds has the ready message in its
  trace, whatever inbound messages are delivered and however their delivery is scheduled
  (also when there are none); the event handler never writes it.
\<close>

theorem ready_message_written_by_Run:
  assumes "authorize w (stripeAuthClient (New c)) (DeviceName c) (WebSocketFeature c)
             = Some (Some s, None)"
    and "Log (cfg (New c)) = Some lg"
  shows "take 6 (fst (Run w (New c))) =
           [StartSpinner ''Getting ready...'' (Out lg),
            SignalNotify [SIGINT, SIGTERM],
            CallAuthorize (DeviceName c) (WebSocketFeature c),
            CallNewClient
              \<lparr>wsURL = WebSocketURL s, wsID = WebSocketID s,
               wsFeature = WebSocketAuthorizedFeature s,
               wsConfig = \<lparr>wsLog = lg, wsNoWSS = NoWSS c,
                           ReconnectInterval = ReconnectDelay s * 1000000000\<rparr>\<rparr>,
            GoClientRun,
            StopSpinner readyMessage (Out lg)]
         \<and> StopSpinner readyMessage (Out lg) \<in> set (session X w c msgs sched)
         \<and> filter isReady (fst (processRequestLogEvent X t m)) = []"
proof -
  obtain es where "fst (Run w (New c)) =
           [StartSpinner ''Getting ready...'' (Out lg),
            SignalNotify [SIGINT, SIGTERM],
            CallAuthorize (DeviceName c) (WebSocketFeature c),
            CallNewClient
              \<lparr>wsURL = WebSocketURL s, wsID = WebSocketID s,
               wsFeature = WebSocketAuthorizedFeature s,
               wsConfig = \<lparr>wsLog = lg, wsNoWSS = NoWSS c,
                           ReconnectInterval = ReconnectDelay s * 1000000000\<rparr>\<rparr>,
            GoClientRun,
            StopSpinner readyMessage (Out lg)] @ es"
    using Run_startup [OF assms refl] by blast
  then show ?thesis
    by (simp add: session_has_ready [OF assms] handler_never_ready)
qed

theorem ready_message_written_by_Run_witness:
  "authorize (exWorld\<lparr>signals := []\<rparr>) (stripeAuthClient (New exConfig)) (DeviceName exConfig)
       (WebSocketFeature exConfig) = Some (Some exSession, None)
   \<and> Log (cfg (New exConfig)) = Some \<lparr>Out = Discard, ExitFunc = None\<rparr>
   \<and> take 6 (fst (Run (exWorld\<lparr>signals := []\<rparr>) (New exConfig))) =
        [StartSpinner ''Getting ready...'' Discard,
         SignalNotify [SIGINT, SIGTERM],
         CallAuthorize ''laptop'' ''request_logs'',
         CallNewClient
           \<lparr>wsURL = ''wss://ws.stripe.com/subscribe'', wsID = ''cliws_1'',
            wsFeature = ''request_logs'',
            wsConfig = \<lparr>wsLog = \<lparr>Out = Discard, ExitFunc = None\<rparr>, wsNoWSS = False,
                        ReconnectInterval = 5000000000\<rparr>\<rparr>,
         GoClientRun,
         StopSpinner readyMessage Discard]
   \<and> StopSpinner readyMessage Discard
        \<in> set (session exExtern (exWorld\<lparr>signals := []\<rparr>) exConfig [] [])
   \<and> filter isReady (fst (processRequestLogEvent exExtern (New exConfig) exGoodMsg)) = []"
  using ready_message_written_by_Run
          [OF ex_authorize(2) ex_Log(2), of exExtern "[]" "[]" "New exConfig" exGoodMsg]
    ex_authorize(2) ex_Log(2)
  by (simp add: exConfig_def exSession_def)

end
